theory Spec2Isabelle
  imports Complex_Main "HOL-Library.Sublist"
begin

section \<open>Data model of app.py\<close>

text \<open>
  The analysis pipeline of \<^verbatim>\<open>app.py\<close>: \<^verbatim>\<open>perform_nlp_analysis\<close>,
  \<^verbatim>\<open>process_news_data\<close> and the two API handlers \<^verbatim>\<open>analyze_topic\<close> and
  \<^verbatim>\<open>latest_news\<close>.

  Conventions of the embedding.
  \<^item> A Python \<^verbatim>\<open>str\<close> is a \<open>string\<close>; one list element stands for one character of
    the Python string, so \<^verbatim>\<open>text[:512]\<close> is \<open>take 512 text\<close>.
  \<^item> A Python \<^verbatim>\<open>float\<close> is the real number it denotes and the literal \<^verbatim>\<open>0.95\<close>
    denotes itself; only the comparison \<^verbatim>\<open><\<close> is used on floats.
  \<^item> An exception is a value: a function that may raise returns \<open>py_exception + 'a\<close>.
    The handlers distinguish two classes only, \<^verbatim>\<open>requests.exceptions.RequestException\<close>
    (and its subclasses) and every other \<^verbatim>\<open>Exception\<close>; the argument is \<^verbatim>\<open>str(e)\<close>.
  \<^item> A JSON object read with \<^verbatim>\<open>.get\<close> has, for each key, a \<open>field\<close>: the key is
    absent, or present with value \<^verbatim>\<open>null\<close>, or present with a value. The values of
    the keys the code reads are strings (lists of objects for \<^verbatim>\<open>articles\<close>), as the
    news service documents them.
  \<^item> The three external services (the HTTP client, the sentiment pipeline and the spaCy
    recogniser) are functions held in an environment, and every function of the model
    returns, next to its result, the list of the calls it made, in order.
\<close>

datatype py_exception = RequestException string | OtherException string

datatype 'a field = Absent | Null | Present 'a

record sentiment_result =
  label :: string
  score :: real

record ent =
  ent_text :: string
  ent_label :: string

type_synonym entity_dict = "(string \<times> string list) list"

record analysis =
  sentiment :: sentiment_result
  entities :: entity_dict

record article =
  title :: "string field"
  content :: "string field"
  description :: "string field"
  publishedAt :: "string field"

record analyzed_article =
  a_id :: nat
  a_title :: "string option"
  a_content :: string
  a_published_at :: "string option"
  a_sentiment :: sentiment_result
  a_entities :: entity_dict

record news_payload =
  status :: "string field"
  message :: "string field"
  articles :: "article list field"

text \<open>
  The value of \<^verbatim>\<open>response.json()\<close>: a dict, or any other JSON value, on which
  \<^verbatim>\<open>.get\<close> raises an AttributeError with the given text.
\<close>

datatype json_doc = JDict news_payload | JNonDict string

text \<open>
  A \<^verbatim>\<open>requests.Response\<close>: its status code, the text of the HTTPError that
  \<^verbatim>\<open>raise_for_status()\<close> raises for it, and the outcome of \<^verbatim>\<open>json()\<close>.
\<close>

record response =
  status_code :: nat
  http_error_text :: string
  json :: "py_exception + json_doc"

datatype call =
    HttpGet string
  | AnalyzerCall string
  | SentimentCall string
  | NerCall string

text \<open>
  The globals of the module: \<^verbatim>\<open>requests.get\<close>, \<^verbatim>\<open>sentiment_pipeline\<close> and
  \<^verbatim>\<open>nlp_ner\<close>, which is \<^verbatim>\<open>None\<close> when the spaCy model failed to load.
\<close>

record env =
  requests_get :: "string \<Rightarrow> py_exception + response"
  sentiment_pipeline :: "string \<Rightarrow> py_exception + sentiment_result list"
  nlp_ner :: "(string \<Rightarrow> py_exception + ent list) option"

datatype json_body = JsonArticles "analyzed_article list" | JsonError string

type_synonym flask_response = "json_body \<times> nat"

section \<open>Python primitives\<close>

text \<open>\<^verbatim>\<open>d.get(k)\<close>: \<^verbatim>\<open>None\<close> for an absent key and for a null value.\<close>

definition dict_get :: "'a field \<Rightarrow> 'a option" where
  "dict_get f = (case f of Absent \<Rightarrow> None | Null \<Rightarrow> None | Present v \<Rightarrow> Some v)"

text \<open>\<^verbatim>\<open>d.get(k, default)\<close>: the default for an absent key only.\<close>

definition dict_get_default :: "'a field \<Rightarrow> 'a \<Rightarrow> 'a option" where
  "dict_get_default f d = (case f of Absent \<Rightarrow> Some d | Null \<Rightarrow> None | Present v \<Rightarrow> Some v)"

text \<open>Truth value of \<^verbatim>\<open>None\<close> or a \<^verbatim>\<open>str\<close>.\<close>

definition truthy :: "string option \<Rightarrow> bool" where
  "truthy x = (case x of None \<Rightarrow> False | Some s \<Rightarrow> s \<noteq> [])"

text \<open>\<^verbatim>\<open>x or y\<close>, and \<^verbatim>\<open>x or "literal"\<close> whose value is always a \<^verbatim>\<open>str\<close>.\<close>

definition py_or :: "string option \<Rightarrow> string option \<Rightarrow> string option" where
  "py_or x y = (if truthy x then x else y)"

definition py_or_str :: "string option \<Rightarrow> string \<Rightarrow> string" where
  "py_or_str x d = (case x of None \<Rightarrow> d | Some s \<Rightarrow> if s \<noteq> [] then s else d)"

text \<open>\<^verbatim>\<open>f"{x}"\<close> for \<^verbatim>\<open>None\<close> or a \<^verbatim>\<open>str\<close>.\<close>

definition py_format :: "string option \<Rightarrow> string" where
  "py_format x = (case x of None \<Rightarrow> ''None'' | Some s \<Rightarrow> s)"

text \<open>\<^verbatim>\<open>k in d\<close> and \<^verbatim>\<open>d[k].append(v)\<close> on a dict of lists, kept in insertion order.\<close>

definition dict_contains :: "string \<Rightarrow> entity_dict \<Rightarrow> bool" where
  "dict_contains k d = (k \<in> set (map fst d))"

definition dict_append :: "string \<Rightarrow> string \<Rightarrow> entity_dict \<Rightarrow> entity_dict" where
  "dict_append k v d = map (\<lambda>(k', vs). if k' = k then (k', vs @ [v]) else (k', vs)) d"

text \<open>
  \<^verbatim>\<open>list(set(xs))\<close>. Python fixes no order for the result; the model keeps the last
  occurrence of each element, and no theorem below depends on the order.
\<close>

definition list_of_set :: "string list \<Rightarrow> string list" where
  "list_of_set xs = remdups xs"

text \<open>\<^verbatim>\<open>response.raise_for_status()\<close> of the requests library: raises for 4xx and 5xx.\<close>

definition raise_for_status :: "response \<Rightarrow> py_exception + unit" where
  "raise_for_status r =
     (if 400 \<le> status_code r \<and> status_code r < 600
      then Inl (RequestException (http_error_text r)) else Inr ())"

section \<open>perform_nlp_analysis\<close>

text \<open>The loop over \<^verbatim>\<open>doc.ents\<close>.\<close>

fun collect_ents :: "ent list \<Rightarrow> entity_dict \<Rightarrow> entity_dict" where
  "collect_ents [] d = d"
| "collect_ents (e # es) d =
     collect_ents es
       (if dict_contains (ent_label e) d
        then dict_append (ent_label e) (ent_text e) d else d)"

text \<open>The loop \<^verbatim>\<open>for key in entities: entities[key] = list(set(entities[key]))\<close>.\<close>

definition dedup_entities :: "entity_dict \<Rightarrow> entity_dict" where
  "dedup_entities d = map (\<lambda>(key, vs). (key, list_of_set vs)) d"

definition perform_nlp_analysis :: "env \<Rightarrow> string \<Rightarrow> (py_exception + analysis) \<times> call list" where
  "perform_nlp_analysis env text =
     (let sentiment_result =
            (case sentiment_pipeline env (take 512 text) of
               Inl e \<Rightarrow> \<lparr>label = ''UNKNOWN'', score = 0\<rparr>
             | Inr [] \<Rightarrow> \<lparr>label = ''UNKNOWN'', score = 0\<rparr>
             | Inr (r # _) \<Rightarrow> if score r < 0.95 then r\<lparr>label := ''NEUTRAL''\<rparr> else r);
          entities = [(''PERSON'', []), (''ORG'', []), (''GPE'', [])];
          calls = [AnalyzerCall text, SentimentCall (take 512 text)]
      in case nlp_ner env of
           None \<Rightarrow> (Inr \<lparr>sentiment = sentiment_result, entities = entities\<rparr>, calls)
         | Some ner \<Rightarrow>
             (case ner text of
                Inl e \<Rightarrow> (Inl e, calls @ [NerCall text])
              | Inr ents \<Rightarrow>
                  (Inr \<lparr>sentiment = sentiment_result,
                        entities = dedup_entities (collect_ents ents entities)\<rparr>,
                   calls @ [NerCall text])))"

section \<open>process_news_data\<close>

text \<open>
  The body of the \<^verbatim>\<open>for\<close> loop over \<^verbatim>\<open>enumerate(news_data)\<close>, with the list
  \<^verbatim>\<open>analyzed_articles\<close> built so far. The variable \<open>text\<close> is the source's local
  \<^verbatim>\<open>content\<close>. An exception of the analyzer ends the loop.
\<close>

fun process_loop ::
  "env \<Rightarrow> (nat \<times> article) list \<Rightarrow> analyzed_article list
     \<Rightarrow> (py_exception + analyzed_article list) \<times> call list" where
  "process_loop env [] analyzed_articles = (Inr analyzed_articles, [])"
| "process_loop env ((i, article_data) # rest) analyzed_articles =
     (let text = py_or_str (py_or (dict_get (content article_data))
                                  (dict_get (description article_data))) ''''
      in if text = '''' then process_loop env rest analyzed_articles
         else
           (case perform_nlp_analysis env text of
              (Inl e, calls) \<Rightarrow> (Inl e, calls)
            | (Inr analysis_results, calls) \<Rightarrow>
                (case process_loop env rest
                        (analyzed_articles @
                           [\<lparr>a_id = i,
                             a_title = dict_get (title article_data),
                             a_content = text,
                             a_published_at = dict_get (publishedAt article_data),
                             a_sentiment = sentiment analysis_results,
                             a_entities = entities analysis_results\<rparr>]) of
                   (res, calls') \<Rightarrow> (res, calls @ calls'))))"

definition process_news_data ::
  "env \<Rightarrow> article list \<Rightarrow> (py_exception + analyzed_article list) \<times> call list" where
  "process_news_data env news_data = process_loop env (List.enumerate 0 news_data) []"


section \<open>The API handlers\<close>

text \<open>
  \<^verbatim>\<open>analyze_topic\<close>, the handler of \<^verbatim>\<open>GET /api/analyze\<close>. Its inputs are the query
  parameters \<^verbatim>\<open>request.args\<close> and \<^verbatim>\<open>current_user.language\<close>. The body of the
  \<^verbatim>\<open>try\<close> is \<open>tried\<close>; the two \<^verbatim>\<open>except\<close> clauses follow it. The TypeError is
  the one \<^verbatim>\<open>enumerate(None)\<close> raises at the head of \<^verbatim>\<open>process_news_data\<close> when
  \<^verbatim>\<open>articles\<close> is null.
\<close>

definition analyze_topic :: "env \<Rightarrow> (string \<rightharpoonup> string) \<Rightarrow> string option \<Rightarrow> flask_response \<times> call list" where
  "analyze_topic env args language =
     (let keyword = (case args ''keyword'' of None \<Rightarrow> ''default topic'' | Some k \<Rightarrow> k);
          api_key = ''Enter Your API Here'';
          lang_code = (if language = Some ''Hindi'' then ''hi'' else ''en'');
          api_url = ''https://newsapi.org/v2/everything?apiKey='' @ api_key @ ''&q='' @ keyword
                      @ ''&language='' @ lang_code;
          tried =
            (case requests_get env api_url of
               Inl e \<Rightarrow> (Inl e, [])
             | Inr response \<Rightarrow>
                 (case raise_for_status response of
                    Inl e \<Rightarrow> (Inl e, [])
                  | Inr _ \<Rightarrow>
                      (case json response of
                         Inl e \<Rightarrow> (Inl e, [])
                       | Inr (JNonDict msg) \<Rightarrow> (Inl (OtherException msg), [])
                       | Inr (JDict response_data) \<Rightarrow>
                           if dict_get (status response_data) \<noteq> Some ''ok'' then
                             (let error_message =
                                    dict_get_default (message response_data) ''Unknown API error''
                              in (Inr (JsonError (''News API Error: '' @ py_format error_message),
                                       400),
                                  []))
                           else
                             (case dict_get_default (articles response_data) [] of
                                None \<Rightarrow>
                                  (Inl (OtherException
                                          (CHR 0x27 # ''NoneType'' @ CHR 0x27 # '' object is not iterable'')),
                                   [])
                              | Some news_data \<Rightarrow>
                                  (case process_news_data env news_data of
                                     (Inl e, calls) \<Rightarrow> (Inl e, calls)
                                   | (Inr analyzed_articles, calls) \<Rightarrow>
                                       (Inr (JsonArticles analyzed_articles, 200), calls))))))
      in (case fst tried of
            Inr flask_response \<Rightarrow> flask_response
          | Inl (RequestException e) \<Rightarrow>
              (JsonError (''Failed to connect to the news service: '' @ e), 500)
          | Inl (OtherException e) \<Rightarrow>
              (JsonError (''An internal server error occurred: '' @ e), 500),
          HttpGet api_url # snd tried))"

text \<open>
  \<^verbatim>\<open>latest_news\<close>, the handler of \<^verbatim>\<open>GET /api/latest\<close>.
\<close>

definition latest_news :: "env \<Rightarrow> flask_response \<times> call list" where
  "latest_news env =
     (let api_key = ''Enter Your API Here'';
          api_url = ''https://newsapi.org/v2/everything?apiKey='' @ api_key
                      @ ''&q=news&language=en&sortBy=publishedAt'';
          tried =
            (case requests_get env api_url of
               Inl e \<Rightarrow> (Inl e, [])
             | Inr response \<Rightarrow>
                 (case raise_for_status response of
                    Inl e \<Rightarrow> (Inl e, [])
                  | Inr _ \<Rightarrow>
                      (case json response of
                         Inl e \<Rightarrow> (Inl e, [])
                       | Inr (JNonDict msg) \<Rightarrow> (Inl (OtherException msg), [])
                       | Inr (JDict response_data) \<Rightarrow>
                           if dict_get (status response_data) \<noteq> Some ''ok'' then
                             (let error_message =
                                    dict_get_default (message response_data) ''Unknown API error''
                              in (Inr (JsonError (''News API Error: '' @ py_format error_message),
                                       400),
                                  []))
                           else
                             (case dict_get_default (articles response_data) [] of
                                None \<Rightarrow>
                                  (Inl (OtherException
                                          (CHR 0x27 # ''NoneType'' @ CHR 0x27 # '' object is not iterable'')),
                                   [])
                              | Some news_data \<Rightarrow>
                                  (case process_news_data env news_data of
                                     (Inl e, calls) \<Rightarrow> (Inl e, calls)
                                   | (Inr analyzed_articles, calls) \<Rightarrow>
                                       (Inr (JsonArticles analyzed_articles, 200), calls))))))
      in (case fst tried of
            Inr flask_response \<Rightarrow> flask_response
          | Inl (RequestException e) \<Rightarrow>
              (JsonError (''Failed to connect to the news service: '' @ e), 500)
          | Inl (OtherException e) \<Rightarrow>
              (JsonError (''An internal server error occurred: '' @ e), 500),
          HttpGet api_url # snd tried))"

section \<open>Notions used in the statements\<close>

text \<open>The recogniser is unavailable, or it returns for this text.\<close>

definition ner_succeeds :: "env \<Rightarrow> string \<Rightarrow> bool" where
  "ner_succeeds env text =
     (case nlp_ner env of
        None \<Rightarrow> True
      | Some ner \<Rightarrow> (case ner text of Inl _ \<Rightarrow> False | Inr _ \<Rightarrow> True))"

text \<open>
  The expression \<^verbatim>\<open>article_data.get('content') or article_data.get('description') or ""\<close>
  of \<^verbatim>\<open>process_news_data\<close>.
\<close>

definition resolved_text :: "article \<Rightarrow> string" where
  "resolved_text article_data =
     py_or_str (py_or (dict_get (content article_data)) (dict_get (description article_data))) ''''"

text \<open>An article whose content and description are both empty or absent.\<close>

definition no_text :: "article \<Rightarrow> bool" where
  "no_text article_data =
     ((dict_get (content article_data) = None \<or> dict_get (content article_data) = Some '''') \<and>
      (dict_get (description article_data) = None \<or>
       dict_get (description article_data) = Some ''''))"

definition ner_succeeds_on :: "env \<Rightarrow> article list \<Rightarrow> bool" where
  "ner_succeeds_on env news_data =
     list_all (\<lambda>a. resolved_text a = '''' \<or> ner_succeeds env (resolved_text a)) news_data"

text \<open>The arguments of the calls of one kind in a list of calls, in order.\<close>

definition analyzer_texts :: "call list \<Rightarrow> string list" where
  "analyzer_texts calls =
     concat (map (\<lambda>c. case c of AnalyzerCall t \<Rightarrow> [t] | _ \<Rightarrow> []) calls)"


text \<open>The entity dict before any entity is added.\<close>

definition empty_entities :: entity_dict where
  "empty_entities = [(''PERSON'', []), (''ORG'', []), (''GPE'', [])]"

text \<open>The record \<^verbatim>\<open>process_news_data\<close> appends for the article at index \<open>fst p\<close>.\<close>

definition emitted :: "env \<Rightarrow> nat \<times> article \<Rightarrow> analyzed_article" where
  "emitted env p =
     (let r = projr (fst (perform_nlp_analysis env (resolved_text (snd p))))
      in \<lparr>a_id = fst p,
          a_title = dict_get (title (snd p)),
          a_content = resolved_text (snd p),
          a_published_at = dict_get (publishedAt (snd p)),
          a_sentiment = sentiment r,
          a_entities = entities r\<rparr>)"

definition survivors :: "(nat \<times> article) list \<Rightarrow> (nat \<times> article) list" where
  "survivors xs = filter (\<lambda>p. resolved_text (snd p) \<noteq> '''') xs"

text \<open>
  The texts of the entities of category \<open>k\<close> that the recogniser returns for a text
  (none when it is unavailable).
\<close>

definition recognised :: "env \<Rightarrow> string \<Rightarrow> string \<Rightarrow> string set" where
  "recognised env text k =
     (case nlp_ner env of
        None \<Rightarrow> {}
      | Some ner \<Rightarrow>
          (case ner text of
             Inl _ \<Rightarrow> {}
           | Inr ents \<Rightarrow> ent_text ` {e \<in> set ents. ent_label e = k}))"


text \<open>The URLs the two handlers build.\<close>

definition analyze_api_url :: "(string \<rightharpoonup> string) \<Rightarrow> string option \<Rightarrow> string" where
  "analyze_api_url args language =
     ''https://newsapi.org/v2/everything?apiKey=Enter Your API Here&q=''
       @ (case args ''keyword'' of None \<Rightarrow> ''default topic'' | Some k \<Rightarrow> k)
       @ ''&language='' @ (if language = Some ''Hindi'' then ''hi'' else ''en'')"

definition latest_api_url :: string where
  "latest_api_url =
     ''https://newsapi.org/v2/everything?apiKey=Enter Your API Here&q=news&language=en&sortBy=publishedAt''"

text \<open>The URL of the query for \<open>default topic\<close>.\<close>

definition default_topic_url :: "string option \<Rightarrow> string" where
  "default_topic_url language =
     ''https://newsapi.org/v2/everything?apiKey=Enter Your API Here&q=default topic&language=''
       @ (if language = Some ''Hindi'' then ''hi'' else ''en'')"

text \<open>\<^verbatim>\<open>raise_for_status()\<close> raises for this response.\<close>

definition http_error :: "response \<Rightarrow> bool" where
  "http_error r = (400 \<le> status_code r \<and> status_code r < 600)"

section \<open>Sample environments and inputs\<close>

definition fixed_pipeline ::
  "string \<Rightarrow> real \<Rightarrow> string \<Rightarrow> py_exception + sentiment_result list" where
  "fixed_pipeline l s text = Inr [\<lparr>label = l, score = s\<rparr>]"

definition failing_pipeline :: "string \<Rightarrow> py_exception + sentiment_result list" where
  "failing_pipeline text = Inl (OtherException ''CUDA out of memory'')"

definition demo_ner :: "string \<Rightarrow> py_exception + ent list" where
  "demo_ner text =
     Inr [\<lparr>ent_text = ''Delhi'', ent_label = ''GPE''\<rparr>,
          \<lparr>ent_text = ''Monday'', ent_label = ''DATE''\<rparr>,
          \<lparr>ent_text = ''Delhi'', ent_label = ''GPE''\<rparr>,
          \<lparr>ent_text = ''Reuters'', ent_label = ''ORG''\<rparr>]"

definition no_get :: "string \<Rightarrow> py_exception + response" where
  "no_get url = Inl (RequestException ''Connection refused'')"

definition demo_env :: "(string \<Rightarrow> py_exception + sentiment_result list) \<Rightarrow> env" where
  "demo_env pipeline =
     \<lparr>requests_get = no_get, sentiment_pipeline = pipeline, nlp_ner = Some demo_ner\<rparr>"

definition no_ner_env :: "(string \<Rightarrow> py_exception + sentiment_result list) \<Rightarrow> env" where
  "no_ner_env pipeline =
     \<lparr>requests_get = no_get, sentiment_pipeline = pipeline, nlp_ner = None\<rparr>"

definition article_a :: article where
  "article_a =
     \<lparr>title = Present ''A'', content = Present ''Great news for the economy'',
      description = Present ''Economy'', publishedAt = Present ''2024-01-01''\<rparr>"

definition article_b :: article where
  "article_b = \<lparr>title = Present ''B'', content = Present '''', description = Present '''',
                 publishedAt = Absent\<rparr>"

definition article_d :: article where
  "article_d = \<lparr>title = Null, content = Null, description = Present ''Markets rally'',
                 publishedAt = Absent\<rparr>"

definition sample_news :: "article list" where
  "sample_news = [article_b, article_a, article_d]"

definition sample_env :: env where
  "sample_env = no_ner_env (fixed_pipeline ''POSITIVE'' 0.97)"

definition respond :: "response \<Rightarrow> string \<Rightarrow> py_exception + response" where
  "respond r url = Inr r"

definition service_env :: "(string \<Rightarrow> py_exception + response) \<Rightarrow> env" where
  "service_env get =
     \<lparr>requests_get = get, sentiment_pipeline = fixed_pipeline ''POSITIVE'' 0.97, nlp_ner = None\<rparr>"

definition quota_payload :: news_payload where
  "quota_payload =
     \<lparr>status = Present ''error'', message = Present ''quota exceeded'', articles = Absent\<rparr>"

definition quota_response :: response where
  "quota_response =
     \<lparr>status_code = 200, http_error_text = '''', json = Inr (JDict quota_payload)\<rparr>"

definition rate_limited_response :: response where
  "rate_limited_response =
     \<lparr>status_code = 429,
      http_error_text = ''429 Client Error: Too Many Requests for url: https://newsapi.org/v2/everything?apiKey=Enter%20Your%20API%20Here&q=default%20topic&language=en'',
      json = Inr (JDict quota_payload)\<rparr>"

definition list_response :: response where
  "list_response =
     \<lparr>status_code = 200, http_error_text = '''',
      json = Inr (JNonDict (CHR 0x27 # ''list'' @ CHR 0x27 # '' object has no attribute ''
                            @ CHR 0x27 # ''get'' @ [CHR 0x27]))\<rparr>"

definition empty_ok_response :: response where
  "empty_ok_response =
     \<lparr>status_code = 200, http_error_text = '''',
      json = Inr (JDict \<lparr>status = Present ''ok'', message = Absent, articles = Absent\<rparr>)\<rparr>"

definition news_ok_response :: response where
  "news_ok_response =
     \<lparr>status_code = 200, http_error_text = '''',
      json = Inr (JDict \<lparr>status = Present ''ok'', message = Absent,
                          articles = Present sample_news\<rparr>)\<rparr>"

definition no_args :: "string \<rightharpoonup> string" where
  "no_args k = None"

definition sample_output :: "analyzed_article list" where
  "sample_output =
     [\<lparr>a_id = 1, a_title = Some ''A'', a_content = ''Great news for the economy'',
       a_published_at = Some ''2024-01-01'',
       a_sentiment = \<lparr>label = ''POSITIVE'', score = 0.97\<rparr>,
       a_entities = [(''PERSON'', []), (''ORG'', []), (''GPE'', [])]\<rparr>,
      \<lparr>a_id = 2, a_title = None, a_content = ''Markets rally'',
       a_published_at = None,
       a_sentiment = \<lparr>label = ''POSITIVE'', score = 0.97\<rparr>,
       a_entities = [(''PERSON'', []), (''ORG'', []), (''GPE'', [])]\<rparr>]"






text \<open>A news service that answers one URL only.\<close>

definition only_at :: "string \<Rightarrow> response \<Rightarrow> string \<Rightarrow> py_exception + response" where
  "only_at url r u = (if u = url then Inr r else Inl (RequestException ''Not Found''))"

definition default_topic_service :: "string \<Rightarrow> py_exception + response" where
  "default_topic_service =
     only_at ''https://newsapi.org/v2/everything?apiKey=Enter Your API Here&q=default topic&language=en''
       news_ok_response"

section \<open>Properties of the analyzer\<close>

lemma perform_calls:
  "snd (perform_nlp_analysis env text) =
     [AnalyzerCall text, SentimentCall (take 512 text)]
       @ (case nlp_ner env of None \<Rightarrow> [] | Some _ \<Rightarrow> [NerCall text])"
  by (simp add: perform_nlp_analysis_def Let_def split: option.splits sum.splits)

lemma perform_succeeds:
  "ner_succeeds env text \<Longrightarrow> \<exists>a. fst (perform_nlp_analysis env text) = Inr a"
  by (simp add: perform_nlp_analysis_def ner_succeeds_def Let_def
      split: option.splits sum.splits)



text \<open>
  C2. When the classifier returns a first result \<open>r\<close> (and the recogniser does not raise),
  the analyzer returns the score of \<open>r\<close> unchanged, and the label NEUTRAL when that score
  is below 0.95, the label of \<open>r\<close> otherwise.
\<close>

theorem low_confidence_is_neutral:
  assumes "sentiment_pipeline env (take 512 text) = Inr (r # rs)"
    and "ner_succeeds env text"
  shows "\<exists>a. fst (perform_nlp_analysis env text) = Inr a \<and>
             sentiment a =
               \<lparr>label = (if score r < 0.95 then ''NEUTRAL'' else label r), score = score r\<rparr>"
  using assms
  by (auto simp add: perform_nlp_analysis_def ner_succeeds_def Let_def
      split: option.splits sum.splits)

theorem low_confidence_is_neutral_witness:
  "sentiment_pipeline (demo_env (fixed_pipeline ''POSITIVE'' 0.60)) (take 512 ''Great news'')
     = Inr [\<lparr>label = ''POSITIVE'', score = 0.60\<rparr>] \<and>
   ner_succeeds (demo_env (fixed_pipeline ''POSITIVE'' 0.60)) ''Great news'' \<and>
   map_sum id sentiment
     (fst (perform_nlp_analysis (demo_env (fixed_pipeline ''POSITIVE'' 0.60)) ''Great news''))
     = Inr \<lparr>label = ''NEUTRAL'', score = 0.60\<rparr> \<and>
   map_sum id sentiment
     (fst (perform_nlp_analysis (demo_env (fixed_pipeline ''POSITIVE'' 0.97)) ''Great news''))
     = Inr \<lparr>label = ''POSITIVE'', score = 0.97\<rparr>"
proof -
  let ?lo = "demo_env (fixed_pipeline ''POSITIVE'' 0.60)"
  let ?hi = "demo_env (fixed_pipeline ''POSITIVE'' 0.97)"
  have p1: "sentiment_pipeline ?lo (take 512 ''Great news'')
              = Inr (\<lparr>label = ''POSITIVE'', score = 0.60\<rparr> # [])"
    by (simp add: demo_env_def fixed_pipeline_def)
  have p2: "sentiment_pipeline ?hi (take 512 ''Great news'')
              = Inr (\<lparr>label = ''POSITIVE'', score = 0.97\<rparr> # [])"
    by (simp add: demo_env_def fixed_pipeline_def)
  have n1: "ner_succeeds ?lo ''Great news''"
    by (simp add: demo_env_def ner_succeeds_def demo_ner_def)
  have n2: "ner_succeeds ?hi ''Great news''"
    by (simp add: demo_env_def ner_succeeds_def demo_ner_def)
  show ?thesis
    using low_confidence_is_neutral [OF p1 n1] low_confidence_is_neutral [OF p2 n2] p1 n1
    by auto
qed



subsection \<open>The entity dict\<close>

lemma collect_step:
  "(if dict_contains l d then dict_append l v d else d) =
     map (\<lambda>(k, vs). (k, vs @ (if k = l then [v] else []))) d"
proof (cases "dict_contains l d")
  case True
  then show ?thesis
    by (auto simp add: dict_append_def)
next
  case False
  then have "\<forall>p \<in> set d. fst p \<noteq> l"
    by (auto simp add: dict_contains_def)
  then have "map (\<lambda>(k, vs). (k, vs @ (if k = l then [v] else []))) d = d"
    by (intro map_idI) auto
  with False show ?thesis by simp
qed

lemma collect_ents_eq:
  "collect_ents es d =
     map (\<lambda>(k, vs). (k, vs @ map ent_text (filter (\<lambda>e. ent_label e = k) es))) d"
proof (induction es arbitrary: d)
  case Nil
  then show ?case by simp
next
  case (Cons e es)
  show ?case
    unfolding collect_ents.simps collect_step Cons.IH
    by (auto simp add: case_prod_unfold)
qed

lemma recognised_entities:
  "dedup_entities (collect_ents ents empty_entities) =
     map (\<lambda>k. (k, list_of_set (map ent_text (filter (\<lambda>e. ent_label e = k) ents))))
       [''PERSON'', ''ORG'', ''GPE'']"
  by (simp add: collect_ents_eq dedup_entities_def empty_entities_def)

lemma perform_entities:
  assumes "fst (perform_nlp_analysis env text) = Inr a"
  shows "entities a =
           (case nlp_ner env of
              None \<Rightarrow> empty_entities
            | Some ner \<Rightarrow>
                map (\<lambda>k. (k, list_of_set
                               (map ent_text (filter (\<lambda>e. ent_label e = k) (projr (ner text))))))
                  [''PERSON'', ''ORG'', ''GPE''])"
  using assms recognised_entities
  by (auto simp add: perform_nlp_analysis_def Let_def empty_entities_def
      split: option.splits sum.splits)

section \<open>Properties of the aggregator\<close>
lemma resolved_text_empty: "resolved_text a = '''' \<longleftrightarrow> no_text a"
  by (auto simp add: resolved_text_def no_text_def py_or_str_def py_or_def truthy_def
      split: option.splits)

lemma analyzer_texts_append:
  "analyzer_texts (xs @ ys) = analyzer_texts xs @ analyzer_texts ys"
  by (simp add: analyzer_texts_def)

lemma analyzer_texts_perform:
  "analyzer_texts (snd (perform_nlp_analysis env text)) = [text]"
  by (simp add: perform_calls analyzer_texts_def split: option.splits)

lemma process_loop_ok:
  "list_all (\<lambda>p. resolved_text (snd p) = '''' \<or> ner_succeeds env (resolved_text (snd p))) xs \<Longrightarrow>
   process_loop env xs acc =
     (Inr (acc @ map (emitted env) (survivors xs)),
      concat (map (\<lambda>p. snd (perform_nlp_analysis env (resolved_text (snd p)))) (survivors xs)))"
proof (induction xs arbitrary: acc)
  case Nil
  then show ?case by (simp add: survivors_def)
next
  case (Cons p xs)
  obtain i a where p: "p = (i, a)" by (cases p)
  from Cons.prems have rest:
    "list_all (\<lambda>p. resolved_text (snd p) = '''' \<or> ner_succeeds env (resolved_text (snd p))) xs"
    by simp
  show ?case
  proof (cases "resolved_text a = ''''")
    case True
    then show ?thesis
      using Cons.IH [OF rest, of acc] p
      by (simp add: survivors_def resolved_text_def [symmetric])
  next
    case False
    with Cons.prems p have "ner_succeeds env (resolved_text a)" by simp
    then obtain r where r: "fst (perform_nlp_analysis env (resolved_text a)) = Inr r"
      using perform_succeeds by blast
    obtain cs where cs: "perform_nlp_analysis env (resolved_text a) = (Inr r, cs)"
      using r by (cases "perform_nlp_analysis env (resolved_text a)") simp
    show ?thesis
      using False p cs Cons.IH [OF rest]
      by (simp add: survivors_def resolved_text_def [symmetric] emitted_def Let_def)
  qed
qed

lemma process_loop_calls:
  "prefix (analyzer_texts (snd (process_loop env xs acc)))
     (map (\<lambda>p. resolved_text (snd p)) (survivors xs))"
proof (induction xs arbitrary: acc)
  case Nil
  then show ?case by (simp add: survivors_def analyzer_texts_def)
next
  case (Cons p xs)
  obtain i a where p: "p = (i, a)" by (cases p)
  show ?case
  proof (cases "resolved_text a = ''''")
    case True
    then show ?thesis
      using Cons.IH [of acc] p
      by (simp add: survivors_def resolved_text_def [symmetric])
  next
    case False
    obtain res cs where cs: "perform_nlp_analysis env (resolved_text a) = (res, cs)"
      by (cases "perform_nlp_analysis env (resolved_text a)")
    then have t: "analyzer_texts cs = [resolved_text a]"
      using analyzer_texts_perform [of env "resolved_text a"] by simp
    show ?thesis
    proof (cases res)
      case (Inl e)
      then show ?thesis
        using False p cs t
        by (simp add: survivors_def resolved_text_def [symmetric])
    next
      case (Inr r)
      let ?acc = "acc @
             [\<lparr>a_id = i, a_title = dict_get (title a), a_content = resolved_text a,
               a_published_at = dict_get (publishedAt a),
               a_sentiment = sentiment r, a_entities = entities r\<rparr>]"
      obtain res' cs' where rest: "process_loop env xs ?acc = (res', cs')"
        by (cases "process_loop env xs ?acc")
      with Cons.IH [of ?acc]
      have "prefix (analyzer_texts cs') (map (\<lambda>p. resolved_text (snd p)) (survivors xs))"
        by simp
      then show ?thesis
        using False p cs t Inr rest
        by (simp add: survivors_def resolved_text_def [symmetric] analyzer_texts_append)
    qed
  qed
qed

lemma enumerate_nth: "List.enumerate 0 xs = map (\<lambda>i. (i, xs ! i)) [0..<length xs]"
  by (rule nth_equalityI) (simp_all add: nth_enumerate_eq)

lemma survivors_enumerate:
  "survivors (List.enumerate 0 xs) =
     map (\<lambda>i. (i, xs ! i)) (filter (\<lambda>i. \<not> no_text (xs ! i)) [0..<length xs])"
  by (simp add: survivors_def enumerate_nth filter_map comp_def resolved_text_empty)

lemma survivors_articles:
  "map snd (survivors (List.enumerate 0 xs)) = filter (\<lambda>a. \<not> no_text a) xs"
proof -
  have "map snd (filter (\<lambda>p. \<not> no_text (snd p)) ys) = filter (\<lambda>a. \<not> no_text a) (map snd ys)"
    for ys :: "(nat \<times> article) list"
    by (simp add: filter_map comp_def)
  then show ?thesis
    by (simp add: survivors_def resolved_text_empty)
qed

lemma ner_succeeds_on_enumerate:
  "ner_succeeds_on env news \<Longrightarrow>
   list_all (\<lambda>p. resolved_text (snd p) = '''' \<or> ner_succeeds env (resolved_text (snd p)))
     (List.enumerate 0 news)"
  by (auto simp add: ner_succeeds_on_def list_all_iff in_set_enumerate_eq)

lemma process_news_data_ok:
  assumes "ner_succeeds_on env news"
  shows "process_news_data env news =
     (Inr (map (emitted env) (survivors (List.enumerate 0 news))),
      concat (map (\<lambda>p. snd (perform_nlp_analysis env (resolved_text (snd p))))
                (survivors (List.enumerate 0 news))))"
  unfolding process_news_data_def
  using process_loop_ok [OF ner_succeeds_on_enumerate [OF assms], of "[]"] by simp

lemma process_news_data_texts:
  assumes "ner_succeeds_on env news"
  shows "analyzer_texts (snd (process_news_data env news)) =
           map resolved_text (filter (\<lambda>a. \<not> no_text a) news)"
proof -
  have "analyzer_texts (concat (map (\<lambda>p. snd (perform_nlp_analysis env (resolved_text (snd p)))) ys))
          = map resolved_text (map snd ys)" for ys :: "(nat \<times> article) list"
    by (induction ys) (simp_all add: analyzer_texts_append analyzer_texts_perform, simp add: analyzer_texts_def)
  from this [of "survivors (List.enumerate 0 news)"] show ?thesis
    by (simp only: process_news_data_ok [OF assms] survivors_articles snd_conv)
qed


lemma emitted_simps:
  "a_id (emitted env p) = fst p"
  "a_title (emitted env p) = dict_get (title (snd p))"
  "a_content (emitted env p) = resolved_text (snd p)"
  "a_published_at (emitted env p) = dict_get (publishedAt (snd p))"
  by (simp_all add: emitted_def Let_def)

lemma survivors_have_text:
  "'''' \<notin> set (map resolved_text (filter (\<lambda>a. \<not> no_text a) news))"
proof
  assume "'''' \<in> set (map resolved_text (filter (\<lambda>a. \<not> no_text a) news))"
  then obtain a where "\<not> no_text a" and "resolved_text a = ''''"
    by auto
  then show False
    by (simp add: resolved_text_empty)
qed

lemma emitted_entities:
  "nlp_ner env = None \<Longrightarrow> a_entities (emitted env p) = empty_entities"
  by (simp add: emitted_def perform_nlp_analysis_def Let_def empty_entities_def)

lemma sample_run:
  "process_news_data sample_env sample_news =
     (Inr [\<lparr>a_id = 1, a_title = Some ''A'', a_content = ''Great news for the economy'',
            a_published_at = Some ''2024-01-01'',
            a_sentiment = \<lparr>label = ''POSITIVE'', score = 0.97\<rparr>,
            a_entities = [(''PERSON'', []), (''ORG'', []), (''GPE'', [])]\<rparr>,
           \<lparr>a_id = 2, a_title = None, a_content = ''Markets rally'',
            a_published_at = None,
            a_sentiment = \<lparr>label = ''POSITIVE'', score = 0.97\<rparr>,
            a_entities = [(''PERSON'', []), (''ORG'', []), (''GPE'', [])]\<rparr>],
      [AnalyzerCall ''Great news for the economy'', SentimentCall ''Great news for the economy'',
       AnalyzerCall ''Markets rally'', SentimentCall ''Markets rally''])"
  by (simp add: process_news_data_def sample_env_def sample_news_def no_ner_env_def
      fixed_pipeline_def article_a_def article_b_def article_d_def enumerate_simps
      perform_nlp_analysis_def dict_get_def py_or_def py_or_str_def truthy_def Let_def)

lemma sample_ner_ok: "ner_succeeds_on sample_env sample_news"
  by (simp add: ner_succeeds_on_def ner_succeeds_def sample_env_def no_ner_env_def list_all_iff)

text \<open>
  C1, as stated: the id of an emitted article is its position in the output. It fails for
  the input \<open>[article_b, article_a]\<close>, whose first article has no text: the only
  article emitted has id 1, not 0.
\<close>

theorem ids_are_output_positions_counterexample:
  "map_sum id (map a_id) (fst (process_news_data sample_env [article_b, article_a])) = Inr [1] \<and>
   map_sum id (map a_id) (fst (process_news_data sample_env [article_b, article_a])) \<noteq> Inr [0]"
  by (simp add: process_news_data_def sample_env_def no_ner_env_def
      fixed_pipeline_def article_a_def article_b_def enumerate_simps
      perform_nlp_analysis_def dict_get_def py_or_def py_or_str_def truthy_def Let_def)

text \<open>
  C1, amended: when the recogniser raises on no article, the aggregator returns, and the ids
  of the emitted articles are, in order, the 0-based positions in the input list of the
  articles that have a text; an article skipped earlier shifts the ids of the later ones.
\<close>

theorem ids_are_input_positions:
  assumes "ner_succeeds_on env news"
  shows "\<exists>out. fst (process_news_data env news) = Inr out \<and>
           map a_id out = filter (\<lambda>i. \<not> no_text (news ! i)) [0..<length news]"
  by (simp add: process_news_data_ok [OF assms] survivors_enumerate emitted_simps comp_def)

theorem ids_are_input_positions_witness:
  "ner_succeeds_on sample_env sample_news \<and>
   map_sum id (map a_id) (fst (process_news_data sample_env sample_news)) = Inr [1, 2]"
  using ids_are_input_positions [OF sample_ner_ok] sample_ner_ok
  by (simp add: sample_run)

text \<open>
  C3. The texts passed to the analyzer are, in order, an initial part of the texts of the
  articles that have one, so an article whose content and description are both empty or
  absent is never analyzed. When the recogniser raises on no article, the aggregator
  returns one record for each article that has a text, in the order of the input, with its
  title, its text and its publication time, and the analyzer is called once for each.
\<close>

theorem skipped_articles:
  "prefix (analyzer_texts (snd (process_news_data env news)))
     (map resolved_text (filter (\<lambda>a. \<not> no_text a) news)) \<and>
   '''' \<notin> set (analyzer_texts (snd (process_news_data env news))) \<and>
   (ner_succeeds_on env news \<longrightarrow>
      (\<exists>out. fst (process_news_data env news) = Inr out \<and>
         map (\<lambda>x. (a_title x, a_content x, a_published_at x)) out =
           map (\<lambda>a. (dict_get (title a), resolved_text a, dict_get (publishedAt a)))
             (filter (\<lambda>a. \<not> no_text a) news) \<and>
         analyzer_texts (snd (process_news_data env news)) = map a_content out))"
proof -
  have "prefix (analyzer_texts (snd (process_news_data env news)))
          (map resolved_text (map snd (survivors (List.enumerate 0 news))))"
    using process_loop_calls [of env "List.enumerate 0 news" "[]"]
    by (simp add: process_news_data_def comp_def)
  then have pre: "prefix (analyzer_texts (snd (process_news_data env news)))
     (map resolved_text (filter (\<lambda>a. \<not> no_text a) news))"
    by (simp only: survivors_articles)
  from pre survivors_have_text [of news]
  have nonempty: "'''' \<notin> set (analyzer_texts (snd (process_news_data env news)))"
    using set_mono_prefix by blast
  have ok: "\<exists>out. fst (process_news_data env news) = Inr out \<and>
         map (\<lambda>x. (a_title x, a_content x, a_published_at x)) out =
           map (\<lambda>a. (dict_get (title a), resolved_text a, dict_get (publishedAt a)))
             (filter (\<lambda>a. \<not> no_text a) news) \<and>
         analyzer_texts (snd (process_news_data env news)) = map a_content out"
    if h: "ner_succeeds_on env news"
  proof -
    let ?out = "map (emitted env) (survivors (List.enumerate 0 news))"
    have 1: "fst (process_news_data env news) = Inr ?out"
      by (simp add: process_news_data_ok [OF h])
    have 2: "map (\<lambda>x. (a_title x, a_content x, a_published_at x)) ?out =
           map (\<lambda>a. (dict_get (title a), resolved_text a, dict_get (publishedAt a)))
             (map snd (survivors (List.enumerate 0 news)))"
      by (simp add: emitted_simps comp_def)
    have 3: "map a_content ?out = map resolved_text (map snd (survivors (List.enumerate 0 news)))"
      by (simp add: emitted_simps comp_def)
    show ?thesis
      using 1 2 3 process_news_data_texts [OF h]
      by (simp only: survivors_articles) simp
  qed
  from pre nonempty ok show ?thesis by blast
qed

theorem skipped_articles_witness:
  "ner_succeeds_on sample_env sample_news \<and>
   analyzer_texts (snd (process_news_data sample_env sample_news))
     = [''Great news for the economy'', ''Markets rally''] \<and>
   map_sum id (map a_title) (fst (process_news_data sample_env sample_news))
     = Inr [Some ''A'', None]"
  using skipped_articles [of sample_env sample_news] sample_ner_ok
  by (simp add: sample_run analyzer_texts_def)

text \<open>
  C8. The text resolved for an article with a non-empty content is that content; a resolved
  text other than the content is the description, and then the content is absent, null or
  empty. When the recogniser raises on no article, the aggregator returns, the content
  field of each record is the text resolved for the input article at the record's id, and
  these are the texts the analyzer is called with.
\<close>

theorem content_preferred:
  "(content a = Present c \<and> c \<noteq> '''' \<longrightarrow> resolved_text a = c) \<and>
   (resolved_text a \<noteq> '''' \<and> content a \<noteq> Present (resolved_text a) \<longrightarrow>
      description a = Present (resolved_text a) \<and>
      (content a = Absent \<or> content a = Null \<or> content a = Present '''')) \<and>
   (ner_succeeds_on env news \<longrightarrow>
      (\<exists>out. fst (process_news_data env news) = Inr out \<and>
         (\<forall>x \<in> set out. a_id x < length news \<and> a_content x = resolved_text (news ! a_id x)) \<and>
         analyzer_texts (snd (process_news_data env news)) = map a_content out))"
proof (intro conjI impI)
  assume "content a = Present c \<and> c \<noteq> ''''"
  then show "resolved_text a = c"
    by (simp add: resolved_text_def dict_get_def py_or_def py_or_str_def truthy_def)
next
  assume h: "resolved_text a \<noteq> '''' \<and> content a \<noteq> Present (resolved_text a)"
  then show "description a = Present (resolved_text a)"
    by (cases "content a"; cases "description a")
       (auto simp add: resolved_text_def dict_get_def py_or_def py_or_str_def truthy_def
        split: if_splits)
  from h show "content a = Absent \<or> content a = Null \<or> content a = Present ''''"
    by (cases "content a"; cases "description a")
       (auto simp add: resolved_text_def dict_get_def py_or_def py_or_str_def truthy_def
        split: if_splits)
next
  assume h: "ner_succeeds_on env news"
  let ?out = "map (emitted env) (survivors (List.enumerate 0 news))"
  have 1: "fst (process_news_data env news) = Inr ?out"
    by (simp add: process_news_data_ok [OF h])
  have 2: "\<forall>x \<in> set ?out. a_id x < length news \<and> a_content x = resolved_text (news ! a_id x)"
    by (auto simp add: survivors_def emitted_simps in_set_enumerate_eq)
  have 3: "map a_content ?out = map resolved_text (filter (\<lambda>a. \<not> no_text a) news)"
    by (simp add: emitted_simps comp_def flip: survivors_articles)
  show "\<exists>out. fst (process_news_data env news) = Inr out \<and>
         (\<forall>x \<in> set out. a_id x < length news \<and> a_content x = resolved_text (news ! a_id x)) \<and>
         analyzer_texts (snd (process_news_data env news)) = map a_content out"
    using 1 2 3 process_news_data_texts [OF h] by (intro exI [of _ ?out]) simp
qed

theorem content_preferred_witness:
  "content article_a = Present ''Great news for the economy'' \<and>
   resolved_text article_a = ''Great news for the economy'' \<and>
   resolved_text article_d = ''Markets rally'' \<and>
   content article_d = Null \<and>
   description article_d = Present ''Markets rally'' \<and>
   ner_succeeds_on sample_env sample_news \<and>
   map_sum id (map a_content) (fst (process_news_data sample_env sample_news))
     = Inr [''Great news for the economy'', ''Markets rally'']"
proof -
  have a: "content article_a = Present ''Great news for the economy''"
    by (simp add: article_a_def)
  have d: "resolved_text article_d = ''Markets rally''" "content article_d = Null"
    by (simp_all add: article_d_def resolved_text_def dict_get_def py_or_def py_or_str_def
        truthy_def)
  have ra: "resolved_text article_a = ''Great news for the economy''"
    using content_preferred [of article_a "''Great news for the economy''" sample_env sample_news] a
    by simp
  have dd: "description article_d = Present ''Markets rally''"
    using content_preferred [of article_d "[]" sample_env sample_news] d
    by simp
  show ?thesis
    using a ra d dd sample_ner_ok by (simp add: sample_run)
qed

text \<open>
  C6. The entity dict of every analyzer result has the keys PERSON, ORG and GPE, in this
  order and no other; the list under each key has no duplicates and holds exactly the texts
  of the entities of that category that the recogniser returned, so entities of any other
  type are dropped. When the recogniser is unavailable, the analyzer returns, with three
  empty lists, and so does the aggregator for every article it emits.
\<close>

theorem entity_categories:
  "(fst (perform_nlp_analysis env text) = Inr a \<longrightarrow>
      map fst (entities a) = [''PERSON'', ''ORG'', ''GPE''] \<and>
      (\<forall>(k, vs) \<in> set (entities a). distinct vs \<and> set vs = recognised env text k)) \<and>
   (nlp_ner env = None \<longrightarrow>
      (\<exists>a. fst (perform_nlp_analysis env text) = Inr a \<and> entities a = empty_entities) \<and>
      (\<exists>out. fst (process_news_data env news) = Inr out \<and>
             (\<forall>x \<in> set out. a_entities x = empty_entities)))"
proof (intro conjI impI)
  assume r: "fst (perform_nlp_analysis env text) = Inr a"
  show "map fst (entities a) = [''PERSON'', ''ORG'', ''GPE'']"
    using perform_entities [OF r]
    by (simp add: empty_entities_def split: option.splits)
  show "\<forall>(k, vs) \<in> set (entities a). distinct vs \<and> set vs = recognised env text k"
  proof (cases "nlp_ner env")
    case None
    then show ?thesis
      using perform_entities [OF r] by (simp add: empty_entities_def recognised_def)
  next
    case (Some ner)
    then obtain ents where "ner text = Inr ents"
      using r by (auto simp add: perform_nlp_analysis_def Let_def split: sum.splits)
    then show ?thesis
      using perform_entities [OF r] Some
      by (auto simp add: recognised_def list_of_set_def)
  qed
next
  assume "nlp_ner env = None"
  then show "\<exists>a. fst (perform_nlp_analysis env text) = Inr a \<and> entities a = empty_entities"
    by (simp add: perform_nlp_analysis_def Let_def empty_entities_def)
next
  assume none: "nlp_ner env = None"
  then have "ner_succeeds_on env news"
    by (simp add: ner_succeeds_on_def ner_succeeds_def list_all_iff)
  then have "fst (process_news_data env news)
               = Inr (map (emitted env) (survivors (List.enumerate 0 news)))"
    by (simp add: process_news_data_ok)
  then show "\<exists>out. fst (process_news_data env news) = Inr out \<and>
                   (\<forall>x \<in> set out. a_entities x = empty_entities)"
    using none by (simp add: emitted_entities)
qed

theorem entity_categories_witness:
  "fst (perform_nlp_analysis (demo_env failing_pipeline) ''Delhi on Monday'')
     = Inr \<lparr>sentiment = \<lparr>label = ''UNKNOWN'', score = 0\<rparr>,
            entities = [(''PERSON'', []), (''ORG'', [''Reuters'']), (''GPE'', [''Delhi''])]\<rparr> \<and>
   recognised (demo_env failing_pipeline) ''Delhi on Monday'' ''GPE'' = {''Delhi''} \<and>
   nlp_ner sample_env = None \<and>
   map_sum id (map a_entities) (fst (process_news_data sample_env sample_news))
     = Inr [empty_entities, empty_entities]"
proof -
  let ?a = "\<lparr>sentiment = \<lparr>label = ''UNKNOWN'', score = 0\<rparr>,
            entities = [(''PERSON'', []), (''ORG'', [''Reuters'']), (''GPE'', [''Delhi''])]\<rparr>"
  have r: "fst (perform_nlp_analysis (demo_env failing_pipeline) ''Delhi on Monday'') = Inr ?a"
    by (simp add: perform_nlp_analysis_def demo_env_def failing_pipeline_def demo_ner_def
        dedup_entities_def list_of_set_def dict_contains_def dict_append_def)
  have n: "nlp_ner sample_env = None"
    by (simp add: sample_env_def no_ner_env_def)
  show ?thesis
    using entity_categories [of "demo_env failing_pipeline" "''Delhi on Monday''" ?a sample_news]
      entity_categories [of sample_env "''Delhi on Monday''" ?a sample_news] r n
    by (simp add: sample_run empty_entities_def)
qed

section \<open>Properties of the handlers\<close>

lemma status_not_ok: "dict_get (status p) \<noteq> Some ''ok'' \<longleftrightarrow> status p \<noteq> Present ''ok''"
  by (cases "status p") (simp_all add: dict_get_def)

lemma handlers_same:
  assumes "requests_get env (analyze_api_url args language) = requests_get env latest_api_url"
  shows "fst (analyze_topic env args language) = fst (latest_news env)"
    and "tl (snd (analyze_topic env args language)) = tl (snd (latest_news env))"
  using assms
  unfolding analyze_topic_def latest_news_def analyze_api_url_def latest_api_url_def Let_def
  by simp_all

lemma analyze_rejected:
  assumes "requests_get env (analyze_api_url args language) = Inr resp"
    and "\<not> http_error resp" and "json resp = Inr (JDict p)" and "status p \<noteq> Present ''ok''"
  shows "analyze_topic env args language =
           ((JsonError (''News API Error: '' @
               (case message p of Absent \<Rightarrow> ''Unknown API error'' | Null \<Rightarrow> ''None''
                | Present m \<Rightarrow> m)), 400),
            [HttpGet (analyze_api_url args language)])"
  using assms
  unfolding analyze_topic_def analyze_api_url_def Let_def
  by (cases "message p")
     (simp_all add: raise_for_status_def http_error_def status_not_ok dict_get_default_def
       py_format_def)

lemma analyze_get_fails:
  assumes "requests_get env (analyze_api_url args language) = Inl (RequestException m)"
  shows "analyze_topic env args language =
           ((JsonError (''Failed to connect to the news service: '' @ m), 500),
            [HttpGet (analyze_api_url args language)])"
  using assms
  unfolding analyze_topic_def analyze_api_url_def Let_def
  by simp

lemma analyze_http_error:
  assumes "requests_get env (analyze_api_url args language) = Inr resp"
    and "http_error resp"
  shows "analyze_topic env args language =
           ((JsonError (''Failed to connect to the news service: '' @ http_error_text resp), 500),
            [HttpGet (analyze_api_url args language)])"
  using assms
  unfolding analyze_topic_def analyze_api_url_def Let_def
  by (simp add: raise_for_status_def http_error_def)

lemma analyze_non_dict:
  assumes "requests_get env (analyze_api_url args language) = Inr resp"
    and "\<not> http_error resp" and "json resp = Inr (JNonDict m)"
  shows "analyze_topic env args language =
           ((JsonError (''An internal server error occurred: '' @ m), 500),
            [HttpGet (analyze_api_url args language)])"
  using assms
  unfolding analyze_topic_def analyze_api_url_def Let_def
  by (simp add: raise_for_status_def http_error_def)

lemma analyze_ok:
  assumes "requests_get env (analyze_api_url args language) = Inr resp"
    and "\<not> http_error resp" and "json resp = Inr (JDict p)" and "status p = Present ''ok''"
    and "dict_get_default (articles p) [] = Some news"
  shows "analyze_topic env args language =
           ((case fst (process_news_data env news) of
               Inr out \<Rightarrow> (JsonArticles out, 200)
             | Inl (RequestException m) \<Rightarrow>
                 (JsonError (''Failed to connect to the news service: '' @ m), 500)
             | Inl (OtherException m) \<Rightarrow>
                 (JsonError (''An internal server error occurred: '' @ m), 500)),
            HttpGet (analyze_api_url args language) # snd (process_news_data env news))"
  using assms
  unfolding analyze_topic_def analyze_api_url_def Let_def
  by (auto simp add: raise_for_status_def http_error_def dict_get_def
      split: sum.splits prod.splits py_exception.splits)

lemma latest_ok:
  assumes "requests_get env latest_api_url = Inr resp"
    and "\<not> http_error resp" and "json resp = Inr (JDict p)" and "status p = Present ''ok''"
    and "dict_get_default (articles p) [] = Some news"
  shows "latest_news env =
           ((case fst (process_news_data env news) of
               Inr out \<Rightarrow> (JsonArticles out, 200)
             | Inl (RequestException m) \<Rightarrow>
                 (JsonError (''Failed to connect to the news service: '' @ m), 500)
             | Inl (OtherException m) \<Rightarrow>
                 (JsonError (''An internal server error occurred: '' @ m), 500)),
            HttpGet latest_api_url # snd (process_news_data env news))"
  using assms
  unfolding latest_news_def latest_api_url_def Let_def
  by (auto simp add: raise_for_status_def http_error_def dict_get_def
      split: sum.splits prod.splits py_exception.splits)

lemma analyze_default_keyword:
  "args ''keyword'' = None \<Longrightarrow>
   analyze_topic env args language =
     analyze_topic env (args(''keyword'' \<mapsto> ''default topic'')) language"
  unfolding analyze_topic_def Let_def by simp

lemma process_nothing: "process_news_data env [] = (Inr [], [])"
  by (simp add: process_news_data_def)

lemma perform_requests_get:
  "perform_nlp_analysis (env\<lparr>requests_get := g\<rparr>) text = perform_nlp_analysis env text"
  by (simp add: perform_nlp_analysis_def)

lemma process_loop_requests_get:
  "process_loop (env\<lparr>requests_get := g\<rparr>) xs acc = process_loop env xs acc"
proof (induction xs arbitrary: acc)
  case Nil
  show ?case by simp
next
  case (Cons p xs)
  obtain i a where p: "p = (i, a)" by (cases p)
  show ?case
    unfolding p process_loop.simps perform_requests_get Cons.IH ..
qed

lemma process_news_data_requests_get:
  "process_news_data (env\<lparr>requests_get := g\<rparr>) news = process_news_data env news"
  by (simp add: process_news_data_def process_loop_requests_get)

lemma default_url:
  "args ''keyword'' = None \<Longrightarrow> analyze_api_url args language = default_topic_url language"
  by (simp add: analyze_api_url_def default_topic_url_def)

lemma analyze_depends_on_url:
  assumes "g (analyze_api_url args language) = requests_get env (analyze_api_url args language)"
  shows "fst (analyze_topic (env\<lparr>requests_get := g\<rparr>) args language)
           = fst (analyze_topic env args language)"
  using assms
  unfolding analyze_topic_def analyze_api_url_def Let_def process_news_data_requests_get
  by simp

lemma service_run: "fst (process_news_data (service_env g) sample_news) = Inr sample_output"
  by (simp add: process_news_data_def service_env_def sample_news_def sample_output_def
      fixed_pipeline_def article_a_def article_b_def article_d_def enumerate_simps
      perform_nlp_analysis_def dict_get_def py_or_def py_or_str_def truthy_def Let_def)

lemma analyze_code:
  "snd (fst (analyze_topic env args language)) =
     (case requests_get env (analyze_api_url args language) of
        Inl e \<Rightarrow> 500
      | Inr resp \<Rightarrow>
          if http_error resp then 500
          else (case json resp of
                  Inl e \<Rightarrow> 500
                | Inr (JNonDict m) \<Rightarrow> 500
                | Inr (JDict p) \<Rightarrow>
                    if status p \<noteq> Present ''ok'' then 400
                    else (case dict_get_default (articles p) [] of
                            None \<Rightarrow> 500
                          | Some news \<Rightarrow>
                              (case fst (process_news_data env news) of
                                 Inl e \<Rightarrow> 500
                               | Inr out \<Rightarrow> 200))))"
proof (cases "requests_get env (analyze_api_url args language)")
  case (Inl e)
  then show ?thesis
    unfolding analyze_topic_def analyze_api_url_def Let_def
    by (cases e) simp_all
next
  case (Inr resp)
  show ?thesis
  proof (cases "http_error resp")
    case True
    then show ?thesis
      using Inr analyze_http_error [of env args language resp] by simp
  next
    case False
    note ok = this
    show ?thesis
    proof (cases "json resp")
      case (Inl e)
      then show ?thesis
        using Inr ok
        unfolding analyze_topic_def analyze_api_url_def Let_def
        by (cases e) (simp_all add: raise_for_status_def http_error_def)
    next
      case r: (Inr doc)
      show ?thesis
      proof (cases doc)
        case (JNonDict m)
        then show ?thesis
          using Inr ok r analyze_non_dict [of env args language resp m] by simp
      next
        case (JDict p)
        show ?thesis
        proof (cases "status p = Present ''ok''")
          case False
          then show ?thesis
            using Inr ok r JDict analyze_rejected [of env args language resp p] by simp
        next
          case True
          show ?thesis
          proof (cases "dict_get_default (articles p) []")
            case None
            then show ?thesis
              using Inr ok r JDict True
              unfolding analyze_topic_def analyze_api_url_def Let_def
              by (simp add: raise_for_status_def http_error_def dict_get_def)
          next
            case (Some news)
            then show ?thesis
              using Inr ok r JDict True analyze_ok [of env args language resp p news]
              by (simp split: sum.splits py_exception.splits)
          qed
        qed
      qed
    qed
  qed
qed

lemma analyze_status_400:
  "snd (fst (analyze_topic env args language)) = 400 \<longleftrightarrow>
     (\<exists>resp p. requests_get env (analyze_api_url args language) = Inr resp \<and>
        \<not> http_error resp \<and> json resp = Inr (JDict p) \<and> status p \<noteq> Present ''ok'')"
  unfolding analyze_code
  by (auto split: sum.splits json_doc.splits option.splits)

lemma analyze_status_range:
  "snd (fst (analyze_topic env args language)) \<in> {200, 400, 500}"
  unfolding analyze_code
  by (simp split: sum.splits json_doc.splits option.splits)


text \<open>
  C4, as stated: every response whose payload has a status other than ok gives a 400. It
  fails when the response carries an HTTP error status, as the news service's error
  responses do: \<^verbatim>\<open>raise_for_status()\<close> raises before the payload is read, and the
  handler answers 500.
\<close>

theorem upstream_rejection_counterexample:
  "json rate_limited_response = Inr (JDict quota_payload) \<and>
   status quota_payload = Present ''error'' \<and>
   fst (analyze_topic (service_env (respond rate_limited_response)) no_args None) =
     (JsonError (''Failed to connect to the news service: ''
                   @ http_error_text rate_limited_response), 500)"
  unfolding analyze_topic_def Let_def
  by (simp add: service_env_def respond_def rate_limited_response_def quota_payload_def
      raise_for_status_def)

text \<open>
  C4, amended: when the request returns a response without an HTTP error status whose
  payload is an object with a status other than ok, the handler answers 400 with the body
  \<open>News API Error: \<close> followed by the upstream message (by \<open>Unknown API error\<close> when the
  payload has no message, by \<open>None\<close> when the message is null), and makes no call but the
  request. A request that raises a RequestException and a response with an HTTP error
  status give a 500 with the connection-failure body, any other exception gives a 500, and
  400 is the answer in the first case only.
\<close>

theorem upstream_rejection:
  "(requests_get env (analyze_api_url args language) = Inr resp \<and> \<not> http_error resp \<and>
    json resp = Inr (JDict p) \<and> status p \<noteq> Present ''ok'' \<longrightarrow>
      analyze_topic env args language =
        ((JsonError (''News API Error: '' @
            (case message p of Absent \<Rightarrow> ''Unknown API error'' | Null \<Rightarrow> ''None''
             | Present m \<Rightarrow> m)), 400),
         [HttpGet (analyze_api_url args language)])) \<and>
   (requests_get env (analyze_api_url args language) = Inl (RequestException msg) \<longrightarrow>
      fst (analyze_topic env args language) =
        (JsonError (''Failed to connect to the news service: '' @ msg), 500)) \<and>
   (requests_get env (analyze_api_url args language) = Inr resp \<and> http_error resp \<longrightarrow>
      fst (analyze_topic env args language) =
        (JsonError (''Failed to connect to the news service: '' @ http_error_text resp), 500)) \<and>
   (requests_get env (analyze_api_url args language) = Inr resp \<and> \<not> http_error resp \<and>
    json resp = Inr (JNonDict msg) \<longrightarrow>
      fst (analyze_topic env args language) =
        (JsonError (''An internal server error occurred: '' @ msg), 500)) \<and>
   (snd (fst (analyze_topic env args language)) = 400 \<longleftrightarrow>
      (\<exists>resp p. requests_get env (analyze_api_url args language) = Inr resp \<and>
         \<not> http_error resp \<and> json resp = Inr (JDict p) \<and> status p \<noteq> Present ''ok'')) \<and>
   snd (fst (analyze_topic env args language)) \<in> {200, 400, 500}"
proof (intro conjI impI)
  assume "requests_get env (analyze_api_url args language) = Inr resp \<and> \<not> http_error resp \<and>
    json resp = Inr (JDict p) \<and> status p \<noteq> Present ''ok''"
  then show "analyze_topic env args language =
        ((JsonError (''News API Error: '' @
            (case message p of Absent \<Rightarrow> ''Unknown API error'' | Null \<Rightarrow> ''None''
             | Present m \<Rightarrow> m)), 400),
         [HttpGet (analyze_api_url args language)])"
    using analyze_rejected by blast
next
  assume "requests_get env (analyze_api_url args language) = Inl (RequestException msg)"
  then show "fst (analyze_topic env args language) =
        (JsonError (''Failed to connect to the news service: '' @ msg), 500)"
    by (simp add: analyze_get_fails)
next
  assume "requests_get env (analyze_api_url args language) = Inr resp \<and> http_error resp"
  then show "fst (analyze_topic env args language) =
        (JsonError (''Failed to connect to the news service: '' @ http_error_text resp), 500)"
    by (simp add: analyze_http_error)
next
  assume "requests_get env (analyze_api_url args language) = Inr resp \<and> \<not> http_error resp \<and>
    json resp = Inr (JNonDict msg)"
  then show "fst (analyze_topic env args language) =
        (JsonError (''An internal server error occurred: '' @ msg), 500)"
    by (simp add: analyze_non_dict)
next
  show "snd (fst (analyze_topic env args language)) = 400 \<longleftrightarrow>
      (\<exists>resp p. requests_get env (analyze_api_url args language) = Inr resp \<and>
         \<not> http_error resp \<and> json resp = Inr (JDict p) \<and> status p \<noteq> Present ''ok'')"
    by (rule analyze_status_400)
next
  show "snd (fst (analyze_topic env args language)) \<in> {200, 400, 500}"
    by (rule analyze_status_range)
qed

theorem upstream_rejection_witness:
  "requests_get (service_env (respond quota_response)) (analyze_api_url no_args None)
     = Inr quota_response \<and>
   \<not> http_error quota_response \<and>
   json quota_response = Inr (JDict quota_payload) \<and>
   status quota_payload \<noteq> Present ''ok'' \<and>
   analyze_topic (service_env (respond quota_response)) no_args None =
     ((JsonError ''News API Error: quota exceeded'', 400),
      [HttpGet (analyze_api_url no_args None)]) \<and>
   requests_get (service_env no_get) (analyze_api_url no_args None)
     = Inl (RequestException ''Connection refused'') \<and>
   fst (analyze_topic (service_env no_get) no_args None) =
     (JsonError ''Failed to connect to the news service: Connection refused'', 500) \<and>
   http_error rate_limited_response \<and>
   snd (fst (analyze_topic (service_env (respond rate_limited_response)) no_args None)) = 500 \<and>
   json list_response = Inr (JNonDict (CHR 0x27 # ''list'' @ CHR 0x27 #
       '' object has no attribute '' @ CHR 0x27 # ''get'' @ [CHR 0x27])) \<and>
   snd (fst (analyze_topic (service_env (respond list_response)) no_args None)) = 500"
proof -
  have q: "requests_get (service_env (respond quota_response)) (analyze_api_url no_args None)
             = Inr quota_response"
       "\<not> http_error quota_response"
       "json quota_response = Inr (JDict quota_payload)"
       "status quota_payload \<noteq> Present ''ok''"
       "message quota_payload = Present ''quota exceeded''"
    by (simp_all add: service_env_def respond_def quota_response_def quota_payload_def
        http_error_def)
  have g: "requests_get (service_env no_get) (analyze_api_url no_args None)
             = Inl (RequestException ''Connection refused'')"
    by (simp add: service_env_def no_get_def)
  have r: "requests_get (service_env (respond rate_limited_response))
             (analyze_api_url no_args None) = Inr rate_limited_response"
       "http_error rate_limited_response"
    by (simp_all add: service_env_def respond_def rate_limited_response_def http_error_def)
  have l: "requests_get (service_env (respond list_response))
             (analyze_api_url no_args None) = Inr list_response"
       "\<not> http_error list_response"
       "json list_response = Inr (JNonDict (CHR 0x27 # ''list'' @ CHR 0x27 #
          '' object has no attribute '' @ CHR 0x27 # ''get'' @ [CHR 0x27]))"
    by (simp_all add: service_env_def respond_def list_response_def http_error_def)
  have 1: "analyze_topic (service_env (respond quota_response)) no_args None =
     ((JsonError ''News API Error: quota exceeded'', 400),
      [HttpGet (analyze_api_url no_args None)])"
    using upstream_rejection [of "service_env (respond quota_response)" no_args None
        quota_response quota_payload] q
    by simp
  have 2: "fst (analyze_topic (service_env no_get) no_args None) =
     (JsonError ''Failed to connect to the news service: Connection refused'', 500)"
    using upstream_rejection [of "service_env no_get" no_args None _ _ "''Connection refused''"] g
    by simp
  have 3: "snd (fst (analyze_topic (service_env (respond rate_limited_response)) no_args None))
             = 500"
    using upstream_rejection [of "service_env (respond rate_limited_response)" no_args None
        rate_limited_response] r
    by simp
  have 4: "snd (fst (analyze_topic (service_env (respond list_response)) no_args None)) = 500"
    using upstream_rejection [of "service_env (respond list_response)" no_args None
        list_response _ "CHR 0x27 # ''list'' @ CHR 0x27 #
          '' object has no attribute '' @ CHR 0x27 # ''get'' @ [CHR 0x27]"] l
    by simp
  from q g r l 1 2 3 4 show ?thesis by simp
qed

text \<open>
  C9. For a request without the query parameter \<open>keyword\<close>, the answer of the handler is
  made from what \<^verbatim>\<open>requests.get\<close> returns for the URL whose query term is
  \<open>default topic\<close>: a RequestException raised for that URL gives the connection-failure
  answer with its message, an ok payload returned for that URL gives the analysis of its
  articles, and no other URL matters. The request is handled as the one with
  \<open>keyword=default topic\<close>.
\<close>

theorem default_keyword:
  assumes "args ''keyword'' = None"
  shows "(requests_get env (default_topic_url language) = Inl (RequestException msg) \<longrightarrow>
            fst (analyze_topic env args language) =
              (JsonError (''Failed to connect to the news service: '' @ msg), 500)) \<and>
         (requests_get env (default_topic_url language) = Inr resp \<and> \<not> http_error resp \<and>
          json resp = Inr (JDict p) \<and> status p = Present ''ok'' \<and> articles p = Present news \<and>
          fst (process_news_data env news) = Inr out \<longrightarrow>
            fst (analyze_topic env args language) = (JsonArticles out, 200)) \<and>
         (g (default_topic_url language) = requests_get env (default_topic_url language) \<longrightarrow>
            fst (analyze_topic (env\<lparr>requests_get := g\<rparr>) args language) =
              fst (analyze_topic env args language)) \<and>
         analyze_topic env args language =
           analyze_topic env (args(''keyword'' \<mapsto> ''default topic'')) language"
proof (intro conjI impI)
  have url: "analyze_api_url args language = default_topic_url language"
    using assms by (rule default_url)
  {
    assume "requests_get env (default_topic_url language) = Inl (RequestException msg)"
    then show "fst (analyze_topic env args language) =
              (JsonError (''Failed to connect to the news service: '' @ msg), 500)"
      using analyze_get_fails [of env args language msg] url by simp
  }
  {
    assume "requests_get env (default_topic_url language) = Inr resp \<and> \<not> http_error resp \<and>
          json resp = Inr (JDict p) \<and> status p = Present ''ok'' \<and> articles p = Present news \<and>
          fst (process_news_data env news) = Inr out"
    then show "fst (analyze_topic env args language) = (JsonArticles out, 200)"
      using analyze_ok [of env args language resp p news] url
      by (simp add: dict_get_default_def)
  }
  {
    assume "g (default_topic_url language) = requests_get env (default_topic_url language)"
    then show "fst (analyze_topic (env\<lparr>requests_get := g\<rparr>) args language) =
              fst (analyze_topic env args language)"
      using analyze_depends_on_url [of g args language env] url by simp
  }
  show "analyze_topic env args language =
           analyze_topic env (args(''keyword'' \<mapsto> ''default topic'')) language"
    using assms by (rule analyze_default_keyword)
qed

theorem default_keyword_witness:
  "no_args ''keyword'' = None \<and>
   requests_get (service_env default_topic_service)
     ''https://newsapi.org/v2/everything?apiKey=Enter Your API Here&q=default topic&language=en''
     = Inr news_ok_response \<and>
   requests_get (service_env default_topic_service)
     ''https://newsapi.org/v2/everything?apiKey=Enter Your API Here&q=&language=en''
     = Inl (RequestException ''Not Found'') \<and>
   fst (analyze_topic (service_env default_topic_service) no_args None)
     = (JsonArticles sample_output, 200) \<and>
   fst (analyze_topic (service_env no_get) no_args None)
     = (JsonError ''Failed to connect to the news service: Connection refused'', 500) \<and>
   fst (analyze_topic ((service_env (respond news_ok_response))
                         \<lparr>requests_get := default_topic_service\<rparr>) no_args None)
     = fst (analyze_topic (service_env (respond news_ok_response)) no_args None)"
proof -
  let ?url = "''https://newsapi.org/v2/everything?apiKey=Enter Your API Here&q=default topic&language=en''"
  let ?E = "service_env default_topic_service"
  let ?p = "\<lparr>status = Present ''ok'', message = Absent, articles = Present sample_news\<rparr>"
  have h: "no_args ''keyword'' = None"
    by (simp add: no_args_def)
  have u: "default_topic_url None = ?url"
    by (simp add: default_topic_url_def)
  have a: "requests_get ?E ?url = Inr news_ok_response"
    by (simp add: service_env_def default_topic_service_def only_at_def)
  have b: "requests_get ?E
             ''https://newsapi.org/v2/everything?apiKey=Enter Your API Here&q=&language=en''
             = Inl (RequestException ''Not Found'')"
    by (simp add: service_env_def default_topic_service_def only_at_def)
  have r: "\<not> http_error news_ok_response" "json news_ok_response = Inr (JDict ?p)"
    by (simp_all add: news_ok_response_def http_error_def)
  have 1: "fst (analyze_topic ?E no_args None) = (JsonArticles sample_output, 200)"
    using default_keyword [of no_args ?E None _ news_ok_response ?p sample_news sample_output,
        OF h, THEN conjunct2, THEN conjunct1]
      a r u service_run [of default_topic_service]
    by simp
  have c: "requests_get (service_env no_get) ?url = Inl (RequestException ''Connection refused'')"
    by (simp add: service_env_def no_get_def)
  have 2: "fst (analyze_topic (service_env no_get) no_args None)
     = (JsonError ''Failed to connect to the news service: Connection refused'', 500)"
    using default_keyword [of no_args "service_env no_get" None "''Connection refused''",
        OF h, THEN conjunct1] c u
    by simp
  have d: "default_topic_service ?url = requests_get (service_env (respond news_ok_response)) ?url"
    by (simp add: service_env_def default_topic_service_def only_at_def respond_def)
  have 3: "fst (analyze_topic ((service_env (respond news_ok_response))
                         \<lparr>requests_get := default_topic_service\<rparr>) no_args None)
     = fst (analyze_topic (service_env (respond news_ok_response)) no_args None)"
    using default_keyword [of no_args "service_env (respond news_ok_response)" None _ _ _ _ _
        default_topic_service, OF h, THEN conjunct2, THEN conjunct2, THEN conjunct1] d u
    by simp
  from h a b 1 2 3 show ?thesis by simp
qed

text \<open>
  C10. When the news service answers the two handlers' requests alike, the two handlers
  return the same response and make the same calls after the request. For a response
  without an HTTP error status whose payload has status ok, each handler answers with what
  \<^verbatim>\<open>process_news_data\<close> returns for the payload's articles, and with the empty array
  when the payload has no \<open>articles\<close> key.
\<close>

theorem handlers_agree:
  "(requests_get env (analyze_api_url args language) = requests_get env latest_api_url \<longrightarrow>
      fst (analyze_topic env args language) = fst (latest_news env) \<and>
      tl (snd (analyze_topic env args language)) = tl (snd (latest_news env))) \<and>
   (requests_get env (analyze_api_url args language) = Inr resp \<and> \<not> http_error resp \<and>
    json resp = Inr (JDict p) \<and> status p = Present ''ok'' \<and> articles p = Present news \<and>
    fst (process_news_data env news) = Inr out \<longrightarrow>
      fst (analyze_topic env args language) = (JsonArticles out, 200)) \<and>
   (requests_get env latest_api_url = Inr resp \<and> \<not> http_error resp \<and>
    json resp = Inr (JDict p) \<and> status p = Present ''ok'' \<and> articles p = Present news \<and>
    fst (process_news_data env news) = Inr out \<longrightarrow>
      fst (latest_news env) = (JsonArticles out, 200)) \<and>
   (requests_get env (analyze_api_url args language) = Inr resp \<and> \<not> http_error resp \<and>
    json resp = Inr (JDict p) \<and> status p = Present ''ok'' \<and> articles p = Absent \<longrightarrow>
      fst (analyze_topic env args language) = (JsonArticles [], 200)) \<and>
   (requests_get env latest_api_url = Inr resp \<and> \<not> http_error resp \<and>
    json resp = Inr (JDict p) \<and> status p = Present ''ok'' \<and> articles p = Absent \<longrightarrow>
      fst (latest_news env) = (JsonArticles [], 200))"
proof (intro conjI impI)
  assume "requests_get env (analyze_api_url args language) = requests_get env latest_api_url"
  then show "fst (analyze_topic env args language) = fst (latest_news env)"
    and "tl (snd (analyze_topic env args language)) = tl (snd (latest_news env))"
    by (rule handlers_same)+
next
  assume "requests_get env (analyze_api_url args language) = Inr resp \<and> \<not> http_error resp \<and>
    json resp = Inr (JDict p) \<and> status p = Present ''ok'' \<and> articles p = Present news \<and>
    fst (process_news_data env news) = Inr out"
  then show "fst (analyze_topic env args language) = (JsonArticles out, 200)"
    using analyze_ok [of env args language resp p news]
    by (simp add: dict_get_default_def)
next
  assume "requests_get env latest_api_url = Inr resp \<and> \<not> http_error resp \<and>
    json resp = Inr (JDict p) \<and> status p = Present ''ok'' \<and> articles p = Present news \<and>
    fst (process_news_data env news) = Inr out"
  then show "fst (latest_news env) = (JsonArticles out, 200)"
    using latest_ok [of env resp p news]
    by (simp add: dict_get_default_def)
next
  assume "requests_get env (analyze_api_url args language) = Inr resp \<and> \<not> http_error resp \<and>
    json resp = Inr (JDict p) \<and> status p = Present ''ok'' \<and> articles p = Absent"
  then show "fst (analyze_topic env args language) = (JsonArticles [], 200)"
    using analyze_ok [of env args language resp p "[]"]
    by (simp add: dict_get_default_def process_nothing)
next
  assume "requests_get env latest_api_url = Inr resp \<and> \<not> http_error resp \<and>
    json resp = Inr (JDict p) \<and> status p = Present ''ok'' \<and> articles p = Absent"
  then show "fst (latest_news env) = (JsonArticles [], 200)"
    using latest_ok [of env resp p "[]"]
    by (simp add: dict_get_default_def process_nothing)
qed

theorem handlers_agree_witness:
  "requests_get (service_env (respond news_ok_response)) (analyze_api_url no_args None)
     = requests_get (service_env (respond news_ok_response)) latest_api_url \<and>
   fst (analyze_topic (service_env (respond news_ok_response)) no_args None)
     = fst (latest_news (service_env (respond news_ok_response))) \<and>
   fst (process_news_data (service_env (respond news_ok_response)) sample_news)
     = Inr sample_output \<and>
   fst (latest_news (service_env (respond news_ok_response))) = (JsonArticles sample_output, 200) \<and>
   fst (analyze_topic (service_env (respond news_ok_response)) no_args None)
     = (JsonArticles sample_output, 200) \<and>
   json empty_ok_response =
     Inr (JDict \<lparr>status = Present ''ok'', message = Absent, articles = Absent\<rparr>) \<and>
   fst (latest_news (service_env (respond empty_ok_response))) = (JsonArticles [], 200) \<and>
   fst (analyze_topic (service_env (respond empty_ok_response)) no_args None)
     = (JsonArticles [], 200)"
proof -
  let ?E = "service_env (respond news_ok_response)"
  let ?p = "\<lparr>status = Present ''ok'', message = Absent, articles = Present sample_news\<rparr>"
  let ?F = "service_env (respond empty_ok_response)"
  let ?q = "\<lparr>status = Present ''ok'', message = Absent, articles = Absent :: article list field\<rparr>"
  have same: "requests_get ?E (analyze_api_url no_args None) = requests_get ?E latest_api_url"
    by (simp add: service_env_def respond_def)
  have run: "fst (process_news_data ?E sample_news) = Inr sample_output"
    by (simp add: process_news_data_def service_env_def sample_news_def sample_output_def
        fixed_pipeline_def article_a_def article_b_def article_d_def enumerate_simps
        perform_nlp_analysis_def dict_get_def py_or_def py_or_str_def truthy_def Let_def)
  have e: "requests_get ?E (analyze_api_url no_args None) = Inr news_ok_response"
      "requests_get ?E latest_api_url = Inr news_ok_response"
      "\<not> http_error news_ok_response" "json news_ok_response = Inr (JDict ?p)"
    by (simp_all add: service_env_def respond_def news_ok_response_def http_error_def)
  have f: "requests_get ?F (analyze_api_url no_args None) = Inr empty_ok_response"
      "requests_get ?F latest_api_url = Inr empty_ok_response"
      "\<not> http_error empty_ok_response" "json empty_ok_response = Inr (JDict ?q)"
    by (simp_all add: service_env_def respond_def empty_ok_response_def http_error_def)
  have 1: "fst (analyze_topic ?E no_args None) = fst (latest_news ?E)"
    using handlers_agree [of ?E no_args None] same by simp
  have 2: "fst (latest_news ?E) = (JsonArticles sample_output, 200)"
    using handlers_agree [of ?E no_args None news_ok_response ?p sample_news sample_output]
      e run by simp
  have 3: "fst (latest_news ?F) = (JsonArticles [], 200)"
    using handlers_agree [of ?F no_args None empty_ok_response ?q] f by simp
  have 4: "fst (analyze_topic ?F no_args None) = (JsonArticles [], 200)"
    using handlers_agree [of ?F no_args None empty_ok_response ?q] f by simp
  from same run 1 2 3 4 f(4) show ?thesis by simp
qed

end
